theory Spec2Isabelle
  imports Main
begin

section \<open>Data model (finance/models.py)\<close>

text \<open>
  Amounts are \<open>Decimal\<close> values of \<open>DecimalField(max_digits=12, decimal_places=2)\<close>.
  They are modelled as integers counting minor units (hundredths), the values such a
  column can hold; the bound of twelve digits is not modelled. Instants are natural
  numbers counting microseconds, a day being 86400000000 of them.
\<close>

type_synonym money = int
type_synonym datetime = nat

datatype status = Pending | Completed | Failed | Cancelled

record bank_account =
  pk :: nat
  user :: nat
  account_number :: string
  balance :: money
  is_active :: bool
  daily_transfer_limit :: money

record transaction =
  txn_pk :: nat
  transaction_id :: string
  sender :: nat
  receiver :: nat
  amount :: money
  description :: string
  status :: status
  created_at :: datetime
  completed_at :: "datetime option"
  failure_reason :: "string option"
  sender_balance_before :: "money option"
  sender_balance_after :: "money option"
  receiver_balance_before :: "money option"
  receiver_balance_after :: "money option"

record audit_log =
  log_user :: nat
  action :: string
  log_description :: string
  ip_address :: "string option"
  user_agent :: "string option"
  related_transaction :: "nat option"
  related_account :: "nat option"

text \<open>
  The three tables, each a list of rows. An account row is found by its primary key
  \<open>pk\<close>; a transaction's primary key is its position in the table (\<open>create\<close> appends,
  \<open>save\<close> rewrites the row in place).
\<close>

record db =
  bank_accounts :: "bank_account list"
  transactions :: "transaction list"
  audit_logs :: "audit_log list"

section \<open>Environment: clock, identifiers, rendering, faults\<close>

text \<open>
  \<open>Raised m\<close> is an exception thrown by the call itself before any statement reaches the
  connection (the patched \<open>save\<close> of \<open>test_atomic_transaction_rollback\<close> is one).
  \<open>DatabaseError m\<close> is an error of the write itself. Inside an \<open>atomic\<close> block Django marks
  the connection for rollback when a write of \<open>Model.save\<close> fails: every later query raises
  \<open>TransactionManagementError\<close>, and the block rolls back when it is left, also when it is
  left without an exception.
\<close>

datatype fault = Raised string | DatabaseError string

text \<open>
  The places of the source where the connection is used: the six writes inside the body of
  \<open>transfer_money\<close>, and the two statements of the \<open>atomic\<close> wrapper around it, opening
  the database transaction on entry and committing it on exit.
\<close>

datatype site =
  CreateTransaction | SaveSender | SaveReceiver | SaveTransaction | CreateAudit
  | SaveFailedTransaction | AtomicEnter | AtomicCommit

record env =
  now :: datetime
  strftime_Ymd :: string
  uuid_hex8 :: string
  str_decimal :: "money \<Rightarrow> string"
  faults :: "site \<Rightarrow> fault option"

datatype exn = DoesNotExist | TransactionManagementError | AttributeError string | Error string

fun str_exn :: "exn \<Rightarrow> string" where
  "str_exn DoesNotExist = ''BankAccount matching query does not exist.''"
| "str_exn TransactionManagementError =
     ''An error occurred in the current transaction.''"
| "str_exn (AttributeError m) = m"
| "str_exn (Error m) = m"

section \<open>BankAccount methods\<close>

definition has_sufficient_balance :: "bank_account \<Rightarrow> money \<Rightarrow> bool" where
  "has_sufficient_balance self amt = (balance self \<ge> amt)"

definition usec_per_day :: nat where
  "usec_per_day = 86400000000"

definition today_start :: "datetime \<Rightarrow> datetime" where
  \<comment> \<open>\<open>timezone.now().replace(hour=0, minute=0, second=0, microsecond=0)\<close>\<close>
  "today_start t = t - t mod usec_per_day"

definition sent_today :: "datetime \<Rightarrow> bank_account \<Rightarrow> transaction \<Rightarrow> bool" where
  \<comment> \<open>\<open>self.sent_transactions.filter(status='completed', created_at__gte=today_start)\<close>\<close>
  "sent_today t self x =
     (sender x = pk self \<and> status x = Completed \<and> created_at x \<ge> today_start t)"

definition aggregate_sum :: "transaction list \<Rightarrow> money option" where
  \<comment> \<open>\<open>aggregate(total=Sum('amount'))\<close>: \<open>None\<close> over no rows\<close>
  "aggregate_sum xs = (if xs = [] then None else Some (sum_list (map amount xs)))"

definition get_daily_transfer_total :: "env \<Rightarrow> db \<Rightarrow> bank_account \<Rightarrow> money" where
  "get_daily_transfer_total e d self =
     (case aggregate_sum (filter (sent_today (now e) self) (transactions d)) of
        None \<Rightarrow> 0
      | Some tot \<Rightarrow> (if tot = 0 then 0 else tot))"

definition can_transfer :: "env \<Rightarrow> db \<Rightarrow> bank_account \<Rightarrow> money \<Rightarrow> bool \<times> string" where
  "can_transfer e d self amt =
     (if \<not> is_active self then (False, ''Account is not active'')
      else if amt \<le> 0 then (False, ''Transfer amount must be positive'')
      else if \<not> has_sufficient_balance self amt then (False, ''Insufficient balance'')
      else let daily_total = get_daily_transfer_total e d self in
        if daily_total + amt > daily_transfer_limit self
        then (False, ''Daily transfer limit exceeded. Limit: ''
                @ str_decimal e (daily_transfer_limit self) @ '', Used: ''
                @ str_decimal e daily_total)
        else (True, ''Transfer allowed''))"

section \<open>The connection inside an atomic block\<close>

text \<open>
  \<open>store\<close> is the database as the open transaction sees it, \<open>needs_rollback\<close> Django's
  flag of that name, \<open>locks\<close> the rows locked by \<open>select_for_update\<close>, in the order of
  acquisition.
\<close>

record conn =
  store :: db
  needs_rollback :: bool
  locks :: "nat list"

definition execute :: "env \<Rightarrow> site \<Rightarrow> (db \<Rightarrow> db) \<Rightarrow> conn \<Rightarrow> (exn + unit) \<times> conn" where
  \<comment> \<open>one write of \<open>Model.save\<close> at the given place of the source\<close>
  "execute e s upd c =
     (case faults e s of
        Some (Raised m) \<Rightarrow> (Inl (Error m), c)
      | Some (DatabaseError m) \<Rightarrow>
          (if needs_rollback c then (Inl TransactionManagementError, c)
           else (Inl (Error m), c\<lparr>needs_rollback := True\<rparr>))
      | None \<Rightarrow>
          (if needs_rollback c then (Inl TransactionManagementError, c)
           else (Inr (), c\<lparr>store := upd (store c)\<rparr>)))"

definition get_account :: "db \<Rightarrow> nat \<Rightarrow> bank_account option" where
  "get_account d k = find (\<lambda>a. pk a = k) (bank_accounts d)"

definition select_for_update_get :: "nat \<Rightarrow> conn \<Rightarrow> (exn + bank_account) \<times> conn" where
  \<comment> \<open>\<open>BankAccount.objects.select_for_update().get(pk=k)\<close>\<close>
  "select_for_update_get k c =
     (case get_account (store c) k of
        None \<Rightarrow> (Inl DoesNotExist, c)
      | Some a \<Rightarrow> (Inr a, c\<lparr>locks := locks c @ [k]\<rparr>))"

definition put_account :: "bank_account \<Rightarrow> db \<Rightarrow> db" where
  \<comment> \<open>\<open>Model.save\<close>: update the row with this primary key, insert when there is none\<close>
  "put_account a d =
     d\<lparr>bank_accounts :=
         (if list_ex (\<lambda>b. pk b = pk a) (bank_accounts d)
          then map (\<lambda>b. if pk b = pk a then a else b) (bank_accounts d)
          else bank_accounts d @ [a])\<rparr>"

definition put_transaction :: "transaction \<Rightarrow> db \<Rightarrow> db" where
  "put_transaction t d = d\<lparr>transactions := (transactions d)[txn_pk t := t]\<rparr>"

definition save_account :: "env \<Rightarrow> site \<Rightarrow> bank_account \<Rightarrow> conn \<Rightarrow> (exn + unit) \<times> conn" where
  "save_account e s a c = execute e s (put_account a) c"

definition save_transaction :: "env \<Rightarrow> site \<Rightarrow> transaction \<Rightarrow> conn \<Rightarrow> (exn + unit) \<times> conn" where
  "save_transaction e s t c = execute e s (put_transaction t) c"

definition create_transaction ::
  "env \<Rightarrow> bank_account \<Rightarrow> bank_account \<Rightarrow> money \<Rightarrow> string \<Rightarrow> conn \<Rightarrow> (exn + transaction) \<times> conn" where
  \<comment> \<open>\<open>Transaction.objects.create(..., status='pending', ...)\<close>, with the identifier that
      \<open>Transaction.save\<close> generates\<close>
  "create_transaction e s r amt descr c =
     (let t = \<lparr>txn_pk = length (transactions (store c)),
                transaction_id = ''TXN'' @ strftime_Ymd e @ uuid_hex8 e,
                sender = pk s, receiver = pk r, amount = amt, description = descr,
                status = Pending, created_at = now e, completed_at = None,
                failure_reason = None,
                sender_balance_before = Some (balance s), sender_balance_after = None,
                receiver_balance_before = Some (balance r), receiver_balance_after = None\<rparr>
      in case execute e CreateTransaction (\<lambda>d. d\<lparr>transactions := transactions d @ [t]\<rparr>) c of
           (Inl x, c') \<Rightarrow> (Inl x, c')
         | (Inr _, c') \<Rightarrow> (Inr t, c'))"

section \<open>AuditService.log_action\<close>

record http_request =
  http_x_forwarded_for :: "string option"
  remote_addr :: "string option"
  http_user_agent :: "string option"

definition client_ip :: "http_request \<Rightarrow> string option" where
  "client_ip rq =
     (case http_x_forwarded_for rq of
        None \<Rightarrow> remote_addr rq
      | Some x \<Rightarrow> (if x = [] then remote_addr rq else Some (takeWhile (\<lambda>ch. ch \<noteq> CHR '','') x)))"

definition log_action_try ::
  "env \<Rightarrow> nat \<Rightarrow> string \<Rightarrow> string \<Rightarrow> nat option \<Rightarrow> nat option \<Rightarrow> http_request option \<Rightarrow> conn
     \<Rightarrow> (exn + audit_log) \<times> conn" where
  \<comment> \<open>the body of the \<open>try\<close> of \<open>log_action\<close>\<close>
  "log_action_try e usr act descr rel_txn rel_acct request c =
     (let entry = \<lparr>log_user = usr, action = act, log_description = descr,
                    ip_address = (case request of None \<Rightarrow> None | Some rq \<Rightarrow> client_ip rq),
                    user_agent = (case request of None \<Rightarrow> None
                                  | Some rq \<Rightarrow> Some (case http_user_agent rq of None \<Rightarrow> [] | Some u \<Rightarrow> u)),
                    related_transaction = rel_txn, related_account = rel_acct\<rparr>
      in case execute e CreateAudit (\<lambda>d. d\<lparr>audit_logs := audit_logs d @ [entry]\<rparr>) c of
           (Inl x, c') \<Rightarrow> (Inl x, c')
         | (Inr _, c') \<Rightarrow> (Inr entry, c'))"

definition log_action ::
  "env \<Rightarrow> nat \<Rightarrow> string \<Rightarrow> string \<Rightarrow> nat option \<Rightarrow> nat option \<Rightarrow> http_request option \<Rightarrow> conn
     \<Rightarrow> audit_log option \<times> conn" where
  \<comment> \<open>\<open>except Exception: logger.error(...); return None\<close>\<close>
  "log_action e usr act descr rel_txn rel_acct request c =
     (case log_action_try e usr act descr rel_txn rel_acct request c of
        (Inl x, c') \<Rightarrow> (None, c')
      | (Inr entry, c') \<Rightarrow> (Some entry, c'))"

section \<open>TransactionService.transfer_money\<close>

type_synonym transfer_result = "bool \<times> string \<times> transaction option"

definition perform_transfer ::
  "env \<Rightarrow> bank_account \<Rightarrow> bank_account \<Rightarrow> transaction \<Rightarrow> money \<Rightarrow> http_request option \<Rightarrow> conn
     \<Rightarrow> (exn + transfer_result) \<times> transaction \<times> conn" where
  \<comment> \<open>the inner \<open>try\<close> (lines 67-96); the second component is \<open>transaction_obj\<close> in memory
      when the block is left\<close>
  "perform_transfer e s r t amt request c =
     (let s' = s\<lparr>balance := balance s - amt\<rparr>;
          r' = r\<lparr>balance := balance r + amt\<rparr>;
          t' = t\<lparr>sender_balance_after := Some (balance s'),
                 receiver_balance_after := Some (balance r'),
                 status := Completed, completed_at := Some (now e)\<rparr>
      in case save_account e SaveSender s' c of
           (Inl x, c1) \<Rightarrow> (Inl x, t', c1)
         | (Inr _, c1) \<Rightarrow>
        (case save_account e SaveReceiver r' c1 of
           (Inl x, c2) \<Rightarrow> (Inl x, t', c2)
         | (Inr _, c2) \<Rightarrow>
        (case save_transaction e SaveTransaction t' c2 of
           (Inl x, c3) \<Rightarrow> (Inl x, t', c3)
         | (Inr _, c3) \<Rightarrow>
        (case log_action e (user s') ''transaction_completed''
                (''Transfer of '' @ str_decimal e amt @ '' from '' @ account_number s'
                   @ '' to '' @ account_number r')
                (Some (txn_pk t')) None request c3 of
           (_, c4) \<Rightarrow>
             (Inr (True, ''Transfer successful! Transaction ID: '' @ transaction_id t', Some t'),
              t', c4)))))"

definition transfer_try ::
  "env \<Rightarrow> bank_account \<Rightarrow> bank_account \<Rightarrow> money \<Rightarrow> string \<Rightarrow> http_request option \<Rightarrow> conn
     \<Rightarrow> (exn + transfer_result) \<times> conn" where
  \<comment> \<open>the outer \<open>try\<close> (lines 35-105)\<close>
  "transfer_try e sender0 receiver0 amt descr request c =
     (if pk sender0 = pk receiver0
      then (Inr (False, ''Cannot transfer money to the same account'', None), c)
      else if amt \<le> 0 then (Inr (False, ''Transfer amount must be positive'', None), c)
      else case can_transfer e (store c) sender0 amt of
        (False, reason) \<Rightarrow> (Inr (False, reason, None), c)
      | (True, _) \<Rightarrow>
     (case select_for_update_get (pk sender0) c of
        (Inl x, c1) \<Rightarrow> (Inl x, c1)
      | (Inr s, c1) \<Rightarrow>
     (case select_for_update_get (pk receiver0) c1 of
        (Inl x, c2) \<Rightarrow> (Inl x, c2)
      | (Inr r, c2) \<Rightarrow>
     (if balance s < amt then (Inr (False, ''Insufficient balance'', None), c2)
      else case create_transaction e s r amt descr c2 of
        (Inl x, c3) \<Rightarrow> (Inl x, c3)
      | (Inr t, c3) \<Rightarrow>
     (case perform_transfer e s r t amt request c3 of
        (Inr res, _, c4) \<Rightarrow> (Inr res, c4)
      | (Inl x, t', c4) \<Rightarrow>
          (case save_transaction e SaveFailedTransaction
                  (t'\<lparr>status := Failed, failure_reason := Some (str_exn x)\<rparr>) c4 of
             (Inl y, c5) \<Rightarrow> (Inl y, c5)
           | (Inr _, c5) \<Rightarrow> (Inl x, c5)))))))"

definition atomic_exit :: "db \<Rightarrow> conn \<Rightarrow> db" where
  \<comment> \<open>leaving \<open>@db_transaction.atomic\<close> without an exception, the commit itself
      succeeding: commit, unless the connection is marked for rollback\<close>
  "atomic_exit d0 c = (if needs_rollback c then d0 else store c)"

text \<open>
  \<open>transfer_money\<close> is the call in which the wrapper's own two statements succeed: what
  the function returns and what is persisted. \<open>atomic_transfer_money\<close> below is the call
  as the caller sees it, with the failures of the wrapper.
\<close>

definition transfer_money ::
  "env \<Rightarrow> bank_account \<Rightarrow> bank_account \<Rightarrow> money \<Rightarrow> string \<Rightarrow> http_request option \<Rightarrow> db
     \<Rightarrow> transfer_result \<times> db" where
  "transfer_money e sender0 receiver0 amt descr request d =
     (case transfer_try e sender0 receiver0 amt descr request
             \<lparr>store = d, needs_rollback = False, locks = []\<rparr> of
        (Inr res, c) \<Rightarrow> (res, atomic_exit d c)
      | (Inl x, c) \<Rightarrow> ((False, ''Transfer failed: '' @ str_exn x, None), atomic_exit d c))"

text \<open>
  The decorator \<open>@db_transaction.atomic\<close> (line 19) is applied to the whole function, so
  the \<open>try\<close> (lines 34-109) lies inside the block and the wrapper's own statements lie
  outside the \<open>try\<close>. When opening the transaction fails, the body does not run and the
  exception goes to the caller. When the body has returned and the connection is not
  marked for rollback, the wrapper commits; when the commit fails, the wrapper rolls back
  and raises the exception to the caller.
\<close>

fun fault_exn :: "fault \<Rightarrow> exn" where
  "fault_exn (Raised m) = Error m"
| "fault_exn (DatabaseError m) = Error m"

definition atomic_transfer_money ::
  "env \<Rightarrow> bank_account \<Rightarrow> bank_account \<Rightarrow> money \<Rightarrow> string \<Rightarrow> http_request option \<Rightarrow> db
     \<Rightarrow> (exn + transfer_result) \<times> db" where
  "atomic_transfer_money e sender0 receiver0 amt descr request d =
     (case faults e AtomicEnter of
        Some f \<Rightarrow> (Inl (fault_exn f), d)
      | None \<Rightarrow>
     (case transfer_try e sender0 receiver0 amt descr request
             \<lparr>store = d, needs_rollback = False, locks = []\<rparr> of
        (x, c) \<Rightarrow>
          (let res = (case x of
                        Inr res \<Rightarrow> res
                      | Inl y \<Rightarrow> (False, ''Transfer failed: '' @ str_exn y, None))
           in if needs_rollback c then (Inr res, d)
              else case faults e AtomicCommit of
                     Some f \<Rightarrow> (Inl (fault_exn f), d)
                   | None \<Rightarrow> (Inr res, store c))))"

section \<open>TransactionService.get_account_statement\<close>

text \<open>
  \<open>services.py\<close> binds the name \<open>db_transaction\<close> to the module
  \<open>django.db.transaction\<close> (line 5) and imports nothing else from \<open>django.db\<close>. That
  module holds the transaction management (the names it defines or imports are listed
  below); the query object \<open>Q\<close> belongs to \<open>django.db.models\<close>, from where
  \<open>views.py\<close> imports it. Reading an attribute that a module lacks raises
  \<open>AttributeError\<close>.
\<close>

definition db_transaction_names :: "string list" where
  "db_transaction_names =
     [''Atomic'', ''ContextDecorator'', ''DEFAULT_DB_ALIAS'', ''DatabaseError'', ''Error'',
      ''ProgrammingError'', ''TransactionManagementError'', ''atomic'', ''clean_savepoints'',
      ''commit'', ''connections'', ''contextmanager'', ''get_autocommit'', ''get_connection'',
      ''get_rollback'', ''mark_for_rollback_on_error'', ''non_atomic_requests'', ''on_commit'',
      ''rollback'', ''savepoint'', ''savepoint_commit'', ''savepoint_rollback'',
      ''set_autocommit'', ''set_rollback'']"

definition db_transaction_getattr :: "string \<Rightarrow> exn + string" where
  "db_transaction_getattr name =
     (if name \<in> set db_transaction_names then Inr name
      else Inl (AttributeError (''module django.db.transaction has no attribute '' @ name)))"

record statement =
  stmt_account :: bank_account
  stmt_transactions :: "transaction list"
  sent_total :: money
  received_total :: money
  net_change :: money
  opening_balance :: money
  closing_balance :: money
  stmt_date_from :: "datetime option"
  stmt_date_to :: "datetime option"

definition statement_rows :: "db \<Rightarrow> bank_account \<Rightarrow> datetime option \<Rightarrow> datetime option \<Rightarrow> transaction list" where
  \<comment> \<open>the queryset of lines 124-132\<close>
  "statement_rows d account date_from date_to =
     (let txs = sort_key created_at
                  (filter (\<lambda>t. (sender t = pk account \<or> receiver t = pk account)
                                \<and> status t = Completed) (transactions d));
          txs1 = (case date_from of None \<Rightarrow> txs
                  | Some f \<Rightarrow> filter (\<lambda>t. created_at t \<ge> f) txs)
      in case date_to of None \<Rightarrow> txs1 | Some u \<Rightarrow> filter (\<lambda>t. created_at t \<le> u) txs1)"

definition get_account_statement ::
  "db \<Rightarrow> bank_account \<Rightarrow> datetime option \<Rightarrow> datetime option \<Rightarrow> exn + statement" where
  "get_account_statement d account date_from date_to =
     (case db_transaction_getattr ''Q'' of
        Inl x \<Rightarrow> Inl x
      | Inr _ \<Rightarrow>
          (let txs = statement_rows d account date_from date_to;
               sent = sum_list (map amount (filter (\<lambda>t. sender t = pk account) txs));
               received = sum_list (map amount (filter (\<lambda>t. receiver t = pk account) txs))
           in Inr \<lparr>stmt_account = account, stmt_transactions = txs, sent_total = sent,
                    received_total = received, net_change = received - sent,
                    opening_balance = balance account - (received - sent),
                    closing_balance = balance account,
                    stmt_date_from = date_from, stmt_date_to = date_to\<rparr>))"

section \<open>AccountService.generate_account_number\<close>

definition account_number_exists :: "db \<Rightarrow> string \<Rightarrow> bool" where
  \<comment> \<open>\<open>BankAccount.objects.filter(account_number=n).exists()\<close>\<close>
  "account_number_exists d n = list_ex (\<lambda>a. account_number a = n) (bank_accounts d)"

text \<open>
  The \<open>while True\<close> loop. \<open>date_part i\<close> and \<open>random_part i\<close> are what the clock and
  \<open>random.choices(string.digits, k=8)\<close> yield in round \<open>i\<close>; the result is \<open>None\<close> when the
  loop never returns.
\<close>

partial_function (option) generate_account_number ::
  "(nat \<Rightarrow> string) \<Rightarrow> (nat \<Rightarrow> string) \<Rightarrow> db \<Rightarrow> nat \<Rightarrow> string option" where
  "generate_account_number date_part random_part d i =
     (if \<not> account_number_exists d (''SPF'' @ date_part i @ random_part i)
      then Some (''SPF'' @ date_part i @ random_part i)
      else generate_account_number date_part random_part d (Suc i))"

section \<open>Sample data\<close>

text \<open>
  The accounts of \<open>TransactionServiceTest.setUp\<close> and of the scenario of the
  specification: S holds 1000.00, R holds 500.00, the daily limit is the default 100000.00.
\<close>

definition env0 :: env where
  "env0 = \<lparr>now = 0, strftime_Ymd = ''20260101'', uuid_hex8 = ''0A1B2C3D'',
            str_decimal = (\<lambda>_. ''#''), faults = (\<lambda>_. None)\<rparr>"

definition fault_at :: "site \<Rightarrow> fault \<Rightarrow> site \<Rightarrow> fault option" where
  "fault_at s f = (\<lambda>x. if x = s then Some f else None)"

definition acct_S :: bank_account where
  "acct_S = \<lparr>pk = 1, user = 1, account_number = ''SPF001'', balance = 100000,
              is_active = True, daily_transfer_limit = 10000000\<rparr>"

definition acct_R :: bank_account where
  "acct_R = \<lparr>pk = 2, user = 2, account_number = ''SPF002'', balance = 50000,
              is_active = True, daily_transfer_limit = 10000000\<rparr>"

definition db0 :: db where
  "db0 = \<lparr>bank_accounts = [acct_S, acct_R], transactions = [], audit_logs = []\<rparr>"

definition conn0 :: "db \<Rightarrow> conn" where
  "conn0 d = \<lparr>store = d, needs_rollback = False, locks = []\<rparr>"

text \<open>
  A later instant (one hour into the second day) and a store in which S has sent
  99900.00 today and 500.00 the day before.
\<close>

definition env1 :: env where
  "env1 = env0\<lparr>now := 90000000000\<rparr>"

definition sent_by_S :: "nat \<Rightarrow> money \<Rightarrow> datetime \<Rightarrow> transaction" where
  "sent_by_S k amt t =
     \<lparr>txn_pk = k, transaction_id = ''TXN'', sender = 1, receiver = 2, amount = amt,
      description = [], status = Completed, created_at = t, completed_at = Some t,
      failure_reason = None, sender_balance_before = None, sender_balance_after = None,
      receiver_balance_before = None, receiver_balance_after = None\<rparr>"

definition db1 :: db where
  "db1 = db0\<lparr>transactions := [sent_by_S 0 50000 80000000000, sent_by_S 1 9990000 86400000000]\<rparr>"

text \<open>
  Rounds of account-number generation on one day: a random source that always yields the
  same digits, one that yields fresh digits from the second round on, and a store in which
  the first candidate is taken.
\<close>

definition same_day :: "nat \<Rightarrow> string" where
  "same_day i = ''260101''"

definition stuck_digits :: "nat \<Rightarrow> string" where
  "stuck_digits i = ''00000000''"

definition second_try_digits :: "nat \<Rightarrow> string" where
  "second_try_digits i = (if i = 0 then ''00000000'' else ''00000001'')"

definition db_taken :: db where
  "db_taken = db0\<lparr>bank_accounts := [acct_S\<lparr>account_number := ''SPF26010100000000''\<rparr>, acct_R]\<rparr>"

section \<open>Unfolding the model\<close>

lemmas model_defs =
  transfer_money_def transfer_try_def perform_transfer_def atomic_exit_def
  create_transaction_def save_account_def save_transaction_def execute_def
  select_for_update_get_def get_account_def put_account_def put_transaction_def
  log_action_def log_action_try_def client_ip_def can_transfer_def
  get_daily_transfer_total_def aggregate_sum_def sent_today_def today_start_def
  usec_per_day_def has_sufficient_balance_def Let_def

lemmas sample_defs =
  env0_def env1_def fault_at_def acct_S_def acct_R_def db0_def db1_def conn0_def sent_by_S_def

section \<open>Shape of the results\<close>

lemma perform_transfer_Inr:
  assumes "perform_transfer e s r t amt rq c = (Inr res, t', c')"
  shows "\<exists>msg. res = (True, msg, Some t') \<and> status t' = Completed"
  using assms
  by (auto simp: perform_transfer_def Let_def split: prod.splits sum.splits)

lemma transfer_try_shape:
  assumes "transfer_try e s r amt descr rq c = (Inr (ok, msg, t), c')"
  shows "(ok \<longrightarrow> (\<exists>tx. t = Some tx \<and> status tx = Completed)) \<and> (\<not> ok \<longrightarrow> t = None)"
  using assms
  by (auto simp: transfer_try_def split: if_splits prod.splits sum.splits bool.splits
      dest: perform_transfer_Inr)

lemma atomic_transfer_money_plain:
  assumes "faults e AtomicEnter = None" and "faults e AtomicCommit = None"
  shows "atomic_transfer_money e s r amt descr rq d
     = (Inr (fst (transfer_money e s r amt descr rq d)),
        snd (transfer_money e s r amt descr rq d))"
  using assms
  by (simp add: atomic_transfer_money_def transfer_money_def atomic_exit_def Let_def
      split: prod.splits sum.splits)

text \<open>
  Claim C10 as stated: \<open>transfer_money\<close> never propagates an exception to its caller. It
  fails when the commit of the atomic block fails: the body has completed the transfer of
  200.00 and returned success, the wrapper's commit raises, the exception reaches the
  caller and nothing is persisted.
\<close>

theorem commit_failure_reaches_caller:
  "atomic_transfer_money (env0\<lparr>faults := fault_at AtomicCommit (DatabaseError ''commit failed'')\<rparr>)
      acct_S acct_R 20000 ''rent'' None db0
   = (Inl (Error ''commit failed''), db0)"
  by (simp add: atomic_transfer_money_def model_defs sample_defs)

text \<open>
  Claim C10, amended. Every exception raised inside the body of \<open>transfer_money\<close> is
  converted into the result \<open>(False, "Transfer failed: ...", None)\<close>, and whenever the call
  returns, it returns a triple of a success flag, a message and an optional transaction,
  in which a successful result carries the transaction in status \<open>completed\<close> and a failed
  one carries none. The call returns whenever the atomic wrapper itself does not fail. The
  only exceptions that reach the caller are those of the wrapper, raised on entering the
  block or on commit, and then nothing of the call is persisted.
\<close>

theorem transfer_money_exceptions:
  "(faults e AtomicEnter = None \<and> faults e AtomicCommit = None \<longrightarrow>
      (\<exists>res. fst (atomic_transfer_money e s r amt descr rq d) = Inr res))
   \<and> (\<forall>x. fst (atomic_transfer_money e s r amt descr rq d) = Inl x \<longrightarrow>
         snd (atomic_transfer_money e s r amt descr rq d) = d
         \<and> (\<exists>f. (faults e AtomicEnter = Some f \<or> faults e AtomicCommit = Some f)
                \<and> x = fault_exn f))
   \<and> (\<forall>ok msg t. fst (atomic_transfer_money e s r amt descr rq d) = Inr (ok, msg, t) \<longrightarrow>
         (ok \<longrightarrow> (\<exists>tx. t = Some tx \<and> status tx = Completed)) \<and> (\<not> ok \<longrightarrow> t = None))
   \<and> (\<forall>x c res.
         transfer_try e s r amt descr rq \<lparr>store = d, needs_rollback = False, locks = []\<rparr>
           = (Inl x, c)
         \<and> fst (atomic_transfer_money e s r amt descr rq d) = Inr res \<longrightarrow>
         res = (False, ''Transfer failed: '' @ str_exn x, None))"
proof -
  let ?c0 = "\<lparr>store = d, needs_rollback = False, locks = []\<rparr>"
  let ?call = "atomic_transfer_money e s r amt descr rq d"
  obtain x c where tt: "transfer_try e s r amt descr rq ?c0 = (x, c)"
    by (cases "transfer_try e s r amt descr rq ?c0")
  define res where
    "res = (case x of Inr v \<Rightarrow> v | Inl y \<Rightarrow> (False, ''Transfer failed: '' @ str_exn y, None))"
  have call: "?call =
     (case faults e AtomicEnter of
        Some f \<Rightarrow> (Inl (fault_exn f), d)
      | None \<Rightarrow>
          if needs_rollback c then (Inr res, d)
          else case faults e AtomicCommit of
                 Some f \<Rightarrow> (Inl (fault_exn f), d)
               | None \<Rightarrow> (Inr res, store c))"
    by (simp add: atomic_transfer_money_def tt res_def Let_def split: option.splits)
  have returns: "fst ?call = Inr res"
    if "faults e AtomicEnter = None" and "faults e AtomicCommit = None"
    using that by (simp add: call)
  have raised: "snd ?call = d
      \<and> (\<exists>f. (faults e AtomicEnter = Some f \<or> faults e AtomicCommit = Some f) \<and> y = fault_exn f)"
    if "fst ?call = Inl y" for y
    using that by (auto simp: call split: option.splits if_splits)
  have same: "v = res" if "fst ?call = Inr v" for v
    using that by (auto simp: call split: option.splits if_splits)
  have shape: "(ok \<longrightarrow> (\<exists>tx. t = Some tx \<and> status tx = Completed)) \<and> (\<not> ok \<longrightarrow> t = None)"
    if "res = (ok, msg, t)" for ok msg t
  proof (cases x)
    case (Inl y)
    with that show ?thesis by (auto simp: res_def)
  next
    case (Inr v)
    with that have "x = Inr (ok, msg, t)" by (simp add: res_def)
    with tt transfer_try_shape [of e s r amt descr rq ?c0 ok msg t c] show ?thesis by simp
  qed
  have converted: "v = (False, ''Transfer failed: '' @ str_exn y, None)"
    if "transfer_try e s r amt descr rq ?c0 = (Inl y, c')" and "fst ?call = Inr v" for y c' v
    using that tt same [of v] by (simp add: res_def)
  show ?thesis
  proof (intro conjI allI impI)
    assume "faults e AtomicEnter = None \<and> faults e AtomicCommit = None"
    then have "fst ?call = Inr res" using returns by blast
    then show "\<exists>v. fst ?call = Inr v" by (rule exI)
  next
    fix y assume "fst ?call = Inl y"
    from raised [OF this] show "snd ?call = d"
      and "\<exists>f. (faults e AtomicEnter = Some f \<or> faults e AtomicCommit = Some f) \<and> y = fault_exn f"
      by blast+
  next
    fix ok msg t assume r: "fst ?call = Inr (ok, msg, t)" and "ok"
    from shape [OF same [OF r, symmetric]] \<open>ok\<close>
    show "\<exists>tx. t = Some tx \<and> status tx = Completed" by blast
  next
    fix ok msg t assume r: "fst ?call = Inr (ok, msg, t)" and "\<not> ok"
    from shape [OF same [OF r, symmetric]] \<open>\<not> ok\<close> show "t = None" by blast
  next
    fix y c' v
    assume "transfer_try e s r amt descr rq ?c0 = (Inl y, c') \<and> fst ?call = Inr v"
    then show "v = (False, ''Transfer failed: '' @ str_exn y, None)"
      using converted by blast
  qed
qed

theorem transfer_money_exceptions_witness:
  "fst (atomic_transfer_money env0 acct_S acct_R 20000 ''rent'' None db0)
     = Inr (True, ''Transfer successful! Transaction ID: TXN202601010A1B2C3D'',
        Some \<lparr>txn_pk = 0, transaction_id = ''TXN202601010A1B2C3D'', sender = 1, receiver = 2,
           amount = 20000, description = ''rent'', status = Completed, created_at = 0,
           completed_at = Some 0, failure_reason = None,
           sender_balance_before = Some 100000, sender_balance_after = Some 80000,
           receiver_balance_before = Some 50000, receiver_balance_after = Some 70000\<rparr>)
   \<and> fst (atomic_transfer_money env0 acct_S acct_R 200000 [] None db0)
     = Inr (False, ''Insufficient balance'', None)
   \<and> fst (transfer_try (env0\<lparr>faults := fault_at SaveSender (Raised ''Test error'')\<rparr>)
            acct_S acct_R 10000 [] None \<lparr>store = db0, needs_rollback = False, locks = []\<rparr>)
     = Inl (Error ''Test error'')
   \<and> fst (atomic_transfer_money (env0\<lparr>faults := fault_at SaveSender (Raised ''Test error'')\<rparr>)
            acct_S acct_R 10000 [] None db0)
     = Inr (False, ''Transfer failed: Test error'', None)
   \<and> atomic_transfer_money (env0\<lparr>faults := fault_at AtomicEnter (DatabaseError ''no connection'')\<rparr>)
        acct_S acct_R 20000 ''rent'' None db0
     = (Inl (fault_exn (DatabaseError ''no connection'')), db0)"
  using transfer_money_exceptions [of env0 acct_S acct_R 20000 "''rent''" None db0]
        transfer_money_exceptions [of env0 acct_S acct_R 200000 "[]" None db0]
        transfer_money_exceptions
          [of "env0\<lparr>faults := fault_at SaveSender (Raised ''Test error'')\<rparr>"
            acct_S acct_R 10000 "[]" None db0]
        transfer_money_exceptions
          [of "env0\<lparr>faults := fault_at AtomicEnter (DatabaseError ''no connection'')\<rparr>"
            acct_S acct_R 20000 "''rent''" None db0]
  by (simp add: atomic_transfer_money_def model_defs sample_defs)

section \<open>The daily limit\<close>

text \<open>
  Claim C5. Let S be the sum of the amounts of the transactions with status
  \<open>completed\<close>, this account as sender, and \<open>created_at\<close> on or after the start of the
  current day, and L the sender's daily limit. \<open>get_daily_transfer_total\<close> is S. With the
  other preconditions holding (distinct accounts, positive amount, active sender,
  sufficient balance), a transfer of \<open>amt\<close> with S + amt > L is rejected with the
  daily-limit message and the store is left as it was, and with S + amt \<le> L
  the check \<open>can_transfer\<close> lets the transfer pass.
\<close>

theorem daily_limit_enforced:
  assumes "pk sender0 \<noteq> pk receiver0" and "0 < amt" and "is_active sender0"
    and "amt \<le> balance sender0"
  shows "let S = sum_list (map amount (filter (\<lambda>x. status x = Completed \<and> sender x = pk sender0
                       \<and> today_start (now e) \<le> created_at x) (transactions d)));
             L = daily_transfer_limit sender0
         in get_daily_transfer_total e d sender0 = S
          \<and> (S + amt > L \<longrightarrow>
               transfer_money e sender0 receiver0 amt descr request d
               = ((False, ''Daily transfer limit exceeded. Limit: '' @ str_decimal e L
                            @ '', Used: '' @ str_decimal e S, None), d))
          \<and> (S + amt \<le> L \<longrightarrow> can_transfer e d sender0 amt = (True, ''Transfer allowed''))"
proof -
  have eq: "(\<lambda>x. status x = Completed \<and> sender x = pk sender0 \<and> today_start (now e) \<le> created_at x)
        = sent_today (now e) sender0"
    by (auto simp: sent_today_def fun_eq_iff)
  have S: "get_daily_transfer_total e d sender0
     = sum_list (map amount (filter (sent_today (now e) sender0) (transactions d)))"
    by (simp add: get_daily_transfer_total_def aggregate_sum_def)
  show ?thesis
    using assms unfolding Let_def eq S [symmetric]
    by (simp add: transfer_money_def transfer_try_def can_transfer_def
        has_sufficient_balance_def atomic_exit_def Let_def)
qed

theorem daily_limit_enforced_witness:
  "get_daily_transfer_total env1 db1 acct_S = 9990000
   \<and> transfer_money env1 acct_S acct_R 20000 [] None db1
     = ((False, ''Daily transfer limit exceeded. Limit: #, Used: #'', None), db1)
   \<and> can_transfer env1 db1 acct_S 10000 = (True, ''Transfer allowed'')"
  using daily_limit_enforced [of acct_S acct_R 20000 env1 db1 "[]" None]
        daily_limit_enforced [of acct_S acct_R 10000 env1 db1 "[]" None]
  by (simp add: sample_defs today_start_def usec_per_day_def Let_def)

section \<open>Lock order\<close>

lemma execute_locks: "execute e s upd c = (res, c') \<Longrightarrow> locks c' = locks c"
  by (auto simp: execute_def split: option.splits fault.splits if_splits)

lemma log_action_locks: "log_action e u a dd rt ra rq c = (res, c') \<Longrightarrow> locks c' = locks c"
  by (auto simp: log_action_def log_action_try_def Let_def split: prod.splits sum.splits
      dest: execute_locks)

lemma create_transaction_locks:
  "create_transaction e s r amt descr c = (res, c') \<Longrightarrow> locks c' = locks c"
  by (auto simp: create_transaction_def Let_def split: prod.splits sum.splits
      dest: execute_locks)

lemma perform_transfer_locks:
  "perform_transfer e s r t amt rq c = (res, t', c') \<Longrightarrow> locks c' = locks c"
  by (auto simp: perform_transfer_def Let_def save_account_def save_transaction_def
      split: prod.splits sum.splits dest!: execute_locks log_action_locks)

text \<open>
  Claim C6 as stated: the two row locks are taken in ascending order of the account
  identifiers, whichever account sends. It fails for a transfer from R (key 2) to S
  (key 1): the locks are taken in the order 2, 1.
\<close>

theorem lock_order_not_ascending:
  "\<not> sorted (locks (snd (transfer_try env0 acct_R acct_S 10000 [] None (conn0 db0))))"
  by (simp add: model_defs sample_defs)

text \<open>
  Claim C6, amended. \<open>transfer_money\<close> locks the sender's row first and the receiver's
  row second, whatever their identifiers: the rows locked by a call are none, the sender's
  alone, or the sender's followed by the receiver's.
\<close>

theorem lock_order_sender_first:
  "locks (snd (transfer_try e sender0 receiver0 amt descr request c))
     \<in> {locks c, locks c @ [pk sender0], locks c @ [pk sender0, pk receiver0]}"
  by (auto simp: transfer_try_def select_for_update_get_def save_transaction_def
      split: prod.splits sum.splits option.splits bool.splits if_splits
      dest!: execute_locks create_transaction_locks perform_transfer_locks)

section \<open>Account-number generation\<close>

lemma generate_account_number_Some:
  assumes ret: "generate_account_number dp rp d i = Some n"
  shows "\<exists>k\<ge>i. n = ''SPF'' @ dp k @ rp k \<and> \<not> account_number_exists d n"
proof (rule generate_account_number.raw_induct
    [where P = "\<lambda>dp rp d i n. \<exists>k\<ge>i. n = ''SPF'' @ dp k @ rp k \<and> \<not> account_number_exists d n",
      OF _ ret], goal_cases)
  case (1 gen dp rp d i n)
  show ?case
  proof (cases "account_number_exists d (''SPF'' @ dp i @ rp i)")
    case True
    with 1(2) have g: "gen dp rp d (Suc i) = Some n" by simp
    have "\<exists>k\<ge>Suc i. n = ''SPF'' @ dp k @ rp k \<and> \<not> account_number_exists d n"
      by (rule 1(1) [OF g])
    then obtain k where k: "Suc i \<le> k" "n = ''SPF'' @ dp k @ rp k" "\<not> account_number_exists d n"
      by (elim exE conjE)
    from k(1) have "i \<le> k" by (rule Suc_leD)
    with k(2,3) show ?thesis by (intro exI [of _ k] conjI)
  next
    case False
    with 1(2) have "n = ''SPF'' @ dp i @ rp i" by simp
    with False show ?thesis by (intro exI [of _ i] conjI) simp_all
  qed
qed

lemma generate_account_number_returns:
  assumes "\<not> account_number_exists d (''SPF'' @ dp (i + j) @ rp (i + j))"
  shows "\<exists>n. generate_account_number dp rp d i = Some n"
  using assms
proof (induction j arbitrary: i)
  case 0
  then show ?case by (subst generate_account_number.simps) simp
next
  case (Suc j)
  from Suc.prems have "\<not> account_number_exists d (''SPF'' @ dp (Suc i + j) @ rp (Suc i + j))"
    by simp
  from Suc.IH [OF this] show ?case
    by (subst generate_account_number.simps) simp
qed

text \<open>
  Claim C9 as stated: generation terminates for every store, the loop being bounded by a
  maximum number of retries. It fails: the loop has no bound, and with a random source
  that keeps yielding the digits of an account number already in the store it never
  returns.
\<close>

theorem generate_account_number_may_not_return:
  "generate_account_number same_day stuck_digits db_taken 0 = None"
proof (cases "generate_account_number same_day stuck_digits db_taken 0")
  case (Some m)
  from generate_account_number_Some [OF this]
  show ?thesis
    by (auto simp: same_day_def stuck_digits_def db_taken_def account_number_exists_def
        sample_defs)
qed simp

text \<open>
  Claim C9, amended. \<open>generate_account_number\<close> repeats, without a bound on the number
  of rounds, building a candidate from the fixed prefix, the date and the random digits and
  looking it up in the store. A number it returns is such a candidate and is not in the
  store; it returns as soon as some round yields a candidate that is not in the store; and
  it never returns when every round yields a number that is taken.
\<close>

theorem generate_account_number_unbounded:
  "(generate_account_number dp rp d i = Some n \<longrightarrow>
      \<not> account_number_exists d n \<and> (\<exists>k\<ge>i. n = ''SPF'' @ dp k @ rp k))
   \<and> ((\<exists>k\<ge>i. \<not> account_number_exists d (''SPF'' @ dp k @ rp k)) \<longrightarrow>
      (\<exists>m. generate_account_number dp rp d i = Some m))
   \<and> ((\<forall>k\<ge>i. account_number_exists d (''SPF'' @ dp k @ rp k)) \<longrightarrow>
      generate_account_number dp rp d i = None)"
proof (intro conjI impI)
  assume "generate_account_number dp rp d i = Some n"
  from generate_account_number_Some [OF this]
  show "\<not> account_number_exists d n" and "\<exists>k\<ge>i. n = ''SPF'' @ dp k @ rp k" by blast+
next
  assume "\<exists>k\<ge>i. \<not> account_number_exists d (''SPF'' @ dp k @ rp k)"
  then obtain k where "i \<le> k" and free: "\<not> account_number_exists d (''SPF'' @ dp k @ rp k)"
    by blast
  then have "k = i + (k - i)" by simp
  with free generate_account_number_returns [of d dp i "k - i" rp]
  show "\<exists>m. generate_account_number dp rp d i = Some m" by simp
next
  assume taken: "\<forall>k\<ge>i. account_number_exists d (''SPF'' @ dp k @ rp k)"
  show "generate_account_number dp rp d i = None"
  proof (cases "generate_account_number dp rp d i")
    case (Some m)
    from generate_account_number_Some [OF this] taken show ?thesis by auto
  qed simp
qed

theorem generate_account_number_unbounded_witness:
  "generate_account_number same_day second_try_digits db_taken 0 = Some ''SPF26010100000001''
   \<and> \<not> account_number_exists db_taken ''SPF26010100000001''
   \<and> account_number_exists db_taken ''SPF26010100000000''
   \<and> generate_account_number same_day stuck_digits db_taken 1 = None"
proof -
  have taken: "account_number_exists db_taken ''SPF26010100000000''"
    by (simp add: db_taken_def account_number_exists_def sample_defs)
  have run: "generate_account_number same_day second_try_digits db_taken 0
      = Some ''SPF26010100000001''"
    apply (subst generate_account_number.simps)
    apply (subst generate_account_number.simps)
    apply (simp add: same_day_def second_try_digits_def db_taken_def account_number_exists_def
        sample_defs)
    done
  from generate_account_number_unbounded
      [of same_day second_try_digits db_taken 0 "''SPF26010100000001''"] run
  have notin: "\<not> account_number_exists db_taken ''SPF26010100000001''"
    by blast
  have "\<forall>k\<ge>1. account_number_exists db_taken (''SPF'' @ same_day k @ stuck_digits k)"
    using taken by (simp add: same_day_def stuck_digits_def)
  with generate_account_number_unbounded [of same_day stuck_digits db_taken 1]
  have stuck: "generate_account_number same_day stuck_digits db_taken 1 = None"
    by blast
  from run notin taken stuck show ?thesis by blast
qed

section \<open>The success path\<close>

text \<open>
  What a successful run of the body does to the store, stage by stage, and the
  conservation of money by a transfer that is committed.
\<close>

lemma execute_Inr:
  "execute e s upd c = (Inr u, c') \<Longrightarrow> c' = c\<lparr>store := upd (store c)\<rparr> \<and> \<not> needs_rollback c"
  by (auto simp: execute_def split: option.splits fault.splits if_splits)

lemma execute_cases:
  "execute e s upd c = (res, c') \<Longrightarrow>
     (store c' = store c \<or> (\<exists>u. res = Inr u \<and> store c' = upd (store c)))
   \<and> (needs_rollback c' \<longrightarrow> needs_rollback c \<or> (\<exists>m. faults e s = Some (DatabaseError m)))"
  by (auto simp: execute_def split: option.splits fault.splits if_splits)

lemma log_action_effect:
  assumes "log_action e u a dd rt ra rq c = (res, c')"
  shows "bank_accounts (store c') = bank_accounts (store c)
     \<and> (needs_rollback c' \<longrightarrow> needs_rollback c \<or> (\<exists>m. faults e CreateAudit = Some (DatabaseError m)))"
proof -
  obtain r1 where "execute e CreateAudit
      (\<lambda>d. d\<lparr>audit_logs := audit_logs d @
         [\<lparr>log_user = u, action = a, log_description = dd,
           ip_address = (case rq of None \<Rightarrow> None | Some rq \<Rightarrow> client_ip rq),
           user_agent = (case rq of None \<Rightarrow> None
                         | Some rq \<Rightarrow> Some (case http_user_agent rq of None \<Rightarrow> [] | Some u \<Rightarrow> u)),
           related_transaction = rt, related_account = ra\<rparr>]\<rparr>) c = (r1, c')"
    using assms
    by (cases "execute e CreateAudit
      (\<lambda>d. d\<lparr>audit_logs := audit_logs d @
         [\<lparr>log_user = u, action = a, log_description = dd,
           ip_address = (case rq of None \<Rightarrow> None | Some rq \<Rightarrow> client_ip rq),
           user_agent = (case rq of None \<Rightarrow> None
                         | Some rq \<Rightarrow> Some (case http_user_agent rq of None \<Rightarrow> [] | Some u \<Rightarrow> u)),
           related_transaction = rt, related_account = ra\<rparr>]\<rparr>) c")
       (auto simp: log_action_def log_action_try_def Let_def split: sum.splits)
  from execute_cases [OF this] show ?thesis by auto
qed

lemma perform_transfer_success:
  assumes run: "perform_transfer e s r t amt rq c = (Inr res, t', c')"
  shows "(\<exists>msg. res = (True, msg, Some t'))
     \<and> t' = t\<lparr>sender_balance_after := Some (balance s - amt),
              receiver_balance_after := Some (balance r + amt),
              status := Completed, completed_at := Some (now e)\<rparr>
     \<and> bank_accounts (store c')
         = bank_accounts (put_account (r\<lparr>balance := balance r + amt\<rparr>)
                           (put_account (s\<lparr>balance := balance s - amt\<rparr>) (store c)))
     \<and> (needs_rollback c' \<longrightarrow> (\<exists>m. faults e CreateAudit = Some (DatabaseError m)))"
proof -
  let ?s = "s\<lparr>balance := balance s - amt\<rparr>" and ?r = "r\<lparr>balance := balance r + amt\<rparr>"
  let ?t = "t\<lparr>sender_balance_after := Some (balance s - amt),
              receiver_balance_after := Some (balance r + amt),
              status := Completed, completed_at := Some (now e)\<rparr>"
  note defs = perform_transfer_def Let_def save_account_def save_transaction_def
  obtain x1 c1 where e1: "execute e SaveSender (put_account ?s) c = (x1, c1)"
    by (cases "execute e SaveSender (put_account ?s) c")
  obtain x2 c2 where e2: "execute e SaveReceiver (put_account ?r) c1 = (x2, c2)"
    by (cases "execute e SaveReceiver (put_account ?r) c1")
  obtain x3 c3 where e3: "execute e SaveTransaction (put_transaction ?t) c2 = (x3, c3)"
    by (cases "execute e SaveTransaction (put_transaction ?t) c2")
  obtain la c4 where e4: "log_action e (user ?s) ''transaction_completed''
           (''Transfer of '' @ str_decimal e amt @ '' from '' @ account_number ?s
              @ '' to '' @ account_number ?r) (Some (txn_pk ?t)) None rq c3 = (la, c4)"
    by (cases "log_action e (user ?s) ''transaction_completed''
           (''Transfer of '' @ str_decimal e amt @ '' from '' @ account_number ?s
              @ '' to '' @ account_number ?r) (Some (txn_pk ?t)) None rq c3")
  from run e1 obtain u1 where x1: "x1 = Inr u1"
    by (cases x1) (simp_all add: defs)
  from run e1 e2 x1 obtain u2 where x2: "x2 = Inr u2"
    by (cases x2) (simp_all add: defs)
  from run e1 e2 e3 x1 x2 obtain u3 where x3: "x3 = Inr u3"
    by (cases x3) (simp_all add: defs)
  from run e1 e2 e3 e4 x1 x2 x3
  have res: "res = (True, ''Transfer successful! Transaction ID: '' @ transaction_id ?t, Some ?t)"
    and t': "t' = ?t" and c': "c' = c4"
    by (auto simp: defs)
  from execute_Inr [OF e1 [unfolded x1]] execute_Inr [OF e2 [unfolded x2]]
    execute_Inr [OF e3 [unfolded x3]]
  have c3: "bank_accounts (store c3) = bank_accounts (put_account ?r (put_account ?s (store c)))"
    and nr: "\<not> needs_rollback c3"
    by (simp_all add: put_transaction_def)
  from log_action_effect [OF e4] c3 nr res t' c' show ?thesis by simp
qed

lemma get_account_pk: "get_account d k = Some a \<Longrightarrow> pk a = k"
  by (auto simp: get_account_def find_Some_iff)

lemma find_map_replace:
  "find (\<lambda>b. pk b = k) (map (\<lambda>b. if pk b = pk a then a else b) xs)
     = (if k = pk a then (if list_ex (\<lambda>b. pk b = pk a) xs then Some a else None)
        else find (\<lambda>b. pk b = k) xs)"
  by (induction xs) auto

lemma find_append_new:
  "\<not> list_ex (\<lambda>b. pk b = pk a) xs \<Longrightarrow>
   find (\<lambda>b. pk b = k) (xs @ [a]) = (if k = pk a then Some a else find (\<lambda>b. pk b = k) xs)"
  by (induction xs) auto

lemma get_account_put_account:
  "get_account (put_account a d) k = (if k = pk a then Some a else get_account d k)"
  by (simp add: get_account_def put_account_def find_map_replace find_append_new)

lemma sum_map_replace:
  assumes "distinct (map pk xs)" and "find (\<lambda>b. pk b = pk a) xs = Some a0"
  shows "sum_list (map (\<lambda>b. balance (if pk b = pk a then a else b)) xs)
       = sum_list (map balance xs) - balance a0 + balance a"
  using assms
proof (induction xs)
  case Nil
  then show ?case by simp
next
  case (Cons x xs)
  show ?case
  proof (cases "pk x = pk a")
    case True
    with Cons.prems have "x = a0" by simp
    from True Cons.prems(1) have other: "\<forall>b\<in>set xs. pk b \<noteq> pk a"
      by (auto simp: image_iff)
    from other have eq: "map (\<lambda>b. balance (if pk b = pk a then a else b)) xs = map balance xs"
      by simp
    from True \<open>x = a0\<close> show ?thesis by (simp add: eq)
  next
    case False
    with Cons show ?thesis by simp
  qed
qed

lemma total_put_account:
  assumes "distinct (map pk (bank_accounts d))" and "get_account d (pk a) = Some a0"
  shows "sum_list (map balance (bank_accounts (put_account a d)))
       = sum_list (map balance (bank_accounts d)) - balance a0 + balance a"
    and "distinct (map pk (bank_accounts (put_account a d)))"
proof -
  from assms(2) have ex: "list_ex (\<lambda>b. pk b = pk a) (bank_accounts d)"
    by (auto simp: get_account_def find_Some_iff list_ex_iff)
  with assms show "sum_list (map balance (bank_accounts (put_account a d)))
       = sum_list (map balance (bank_accounts d)) - balance a0 + balance a"
    by (simp add: put_account_def get_account_def sum_map_replace comp_def)
  have eq: "map (\<lambda>b. pk (if pk b = pk a then a else b)) (bank_accounts d) = map pk (bank_accounts d)"
    by (rule map_cong) auto
  from ex assms(1) show "distinct (map pk (bank_accounts (put_account a d)))"
    by (simp add: put_account_def comp_def eq)
qed


lemma select_for_update_get_Inr:
  "select_for_update_get k c = (Inr a, c') \<Longrightarrow>
     get_account (store c) k = Some a \<and> store c' = store c \<and> needs_rollback c' = needs_rollback c"
  by (auto simp: select_for_update_get_def split: option.splits)

lemma create_transaction_Inr:
  assumes "create_transaction e s r amt descr c = (Inr t, c')"
  shows "bank_accounts (store c') = bank_accounts (store c) \<and> \<not> needs_rollback c'
     \<and> sender_balance_before t = Some (balance s)
     \<and> receiver_balance_before t = Some (balance r) \<and> amount t = amt"
proof -
  let ?t = "\<lparr>txn_pk = length (transactions (store c)),
                transaction_id = ''TXN'' @ strftime_Ymd e @ uuid_hex8 e,
                sender = pk s, receiver = pk r, amount = amt, description = descr,
                status = Pending, created_at = now e, completed_at = None,
                failure_reason = None,
                sender_balance_before = Some (balance s), sender_balance_after = None,
                receiver_balance_before = Some (balance r), receiver_balance_after = None\<rparr>"
  obtain x1 c1 where e1:
    "execute e CreateTransaction (\<lambda>d. d\<lparr>transactions := transactions d @ [?t]\<rparr>) c = (x1, c1)"
    by (cases "execute e CreateTransaction (\<lambda>d. d\<lparr>transactions := transactions d @ [?t]\<rparr>) c")
  from assms e1 obtain u1 where x1: "x1 = Inr u1"
    by (cases x1) (simp_all add: create_transaction_def Let_def)
  from assms e1 x1 have "t = ?t" and "c' = c1"
    by (auto simp: create_transaction_def Let_def)
  with execute_Inr [OF e1 [unfolded x1]] show ?thesis by simp
qed

lemma transfer_try_success:
  assumes run: "transfer_try e s0 r0 amt descr rq c = (Inr (True, msg, topt), c')"
  shows "\<exists>s r t. get_account (store c) (pk s0) = Some s \<and> get_account (store c) (pk r0) = Some r
     \<and> pk s0 \<noteq> pk r0 \<and> topt = Some t \<and> status t = Completed \<and> amount t = amt
     \<and> sender_balance_before t = Some (balance s)
     \<and> sender_balance_after t = Some (balance s - amt)
     \<and> receiver_balance_before t = Some (balance r)
     \<and> receiver_balance_after t = Some (balance r + amt)
     \<and> bank_accounts (store c')
         = bank_accounts (put_account (r\<lparr>balance := balance r + amt\<rparr>)
                           (put_account (s\<lparr>balance := balance s - amt\<rparr>) (store c)))
     \<and> (needs_rollback c' \<longrightarrow> (\<exists>m. faults e CreateAudit = Some (DatabaseError m)))"
proof -
  note tt = transfer_try_def
  from run have ne: "pk s0 \<noteq> pk r0" by (auto simp: tt)
  from run ne have pos: "\<not> amt \<le> 0" by (auto simp: tt)
  obtain ok reason where ct: "can_transfer e (store c) s0 amt = (ok, reason)"
    by (cases "can_transfer e (store c) s0 amt")
  from run ne pos ct have ok: "ok" by (cases ok) (auto simp: tt)
  obtain g1 c1 where l1: "select_for_update_get (pk s0) c = (g1, c1)"
    by (cases "select_for_update_get (pk s0) c")
  from run ne pos ct ok l1 obtain s where g1: "g1 = Inr s"
    by (cases g1) (auto simp: tt)
  obtain g2 c2 where l2: "select_for_update_get (pk r0) c1 = (g2, c2)"
    by (cases "select_for_update_get (pk r0) c1")
  from run ne pos ct ok l1 g1 l2 obtain r where g2: "g2 = Inr r"
    by (cases g2) (auto simp: tt)
  from run ne pos ct ok l1 g1 l2 g2 have bal: "\<not> balance s < amt"
    by (auto simp: tt)
  obtain x3 c3 where cr: "create_transaction e s r amt descr c2 = (x3, c3)"
    by (cases "create_transaction e s r amt descr c2")
  from run ne pos ct ok l1 g1 l2 g2 bal cr obtain t where x3: "x3 = Inr t"
    by (cases x3) (auto simp: tt)
  obtain x4 t' c4 where pt: "perform_transfer e s r t amt rq c3 = (x4, t', c4)"
    by (cases "perform_transfer e s r t amt rq c3")
  have x4: "x4 = Inr (True, msg, topt) \<and> c' = c4"
  proof (cases x4)
    case (Inl x)
    with run ne pos ct ok l1 g1 l2 g2 bal cr x3 pt show ?thesis
      by (auto simp: tt split: prod.splits sum.splits)
  next
    case (Inr v)
    with run ne pos ct ok l1 g1 l2 g2 bal cr x3 pt show ?thesis
      by (auto simp: tt)
  qed
  from select_for_update_get_Inr [OF l1 [unfolded g1]]
    select_for_update_get_Inr [OF l2 [unfolded g2]]
  have gs: "get_account (store c) (pk s0) = Some s" and gr: "get_account (store c) (pk r0) = Some r"
    and st: "store c2 = store c"
    by simp_all
  from create_transaction_Inr [OF cr [unfolded x3]] st
  have c3: "bank_accounts (store c3) = bank_accounts (store c)"
    and snap: "sender_balance_before t = Some (balance s)"
      "receiver_balance_before t = Some (balance r)" "amount t = amt"
    by simp_all
  have pa: "bank_accounts (put_account a d1) = bank_accounts (put_account a d2)"
    if "bank_accounts d1 = bank_accounts d2" for a d1 d2
    using that by (simp add: put_account_def)
  from x4 pt have pt': "perform_transfer e s r t amt rq c3 = (Inr (True, msg, topt), t', c')"
    by simp
  from perform_transfer_success [OF pt'] c3 snap gs gr ne
  show ?thesis
    by (auto simp: pa [OF pa [OF c3]])
qed


lemma committed_transfer_conserves:
  assumes run: "transfer_money e s0 r0 amt descr rq d = ((True, msg, topt), d')"
    and noerr: "\<forall>m. faults e CreateAudit \<noteq> Some (DatabaseError m)"
    and dist: "distinct (map pk (bank_accounts d))"
  shows "\<exists>t sb rb. topt = Some t \<and> status t = Completed \<and> amount t = amt
     \<and> sender_balance_before t = Some sb \<and> sender_balance_after t = Some (sb - amt)
     \<and> receiver_balance_before t = Some rb \<and> receiver_balance_after t = Some (rb + amt)
     \<and> map_option balance (get_account d (pk s0)) = Some sb
     \<and> map_option balance (get_account d (pk r0)) = Some rb
     \<and> map_option balance (get_account d' (pk s0)) = Some (sb - amt)
     \<and> map_option balance (get_account d' (pk r0)) = Some (rb + amt)
     \<and> sum_list (map balance (bank_accounts d')) = sum_list (map balance (bank_accounts d))"
proof -
  let ?c0 = "\<lparr>store = d, needs_rollback = False, locks = []\<rparr>"
  obtain x c' where tt: "transfer_try e s0 r0 amt descr rq ?c0 = (x, c')"
    by (cases "transfer_try e s0 r0 amt descr rq ?c0")
  from run tt have x: "x = Inr (True, msg, topt)" and d': "d' = atomic_exit d c'"
    by (cases x; simp add: transfer_money_def)+
  from transfer_try_success [OF tt [unfolded x]] obtain s r t where
    gs: "get_account d (pk s0) = Some s" and gr: "get_account d (pk r0) = Some r" and
    ne: "pk s0 \<noteq> pk r0" and t: "topt = Some t" "status t = Completed" "amount t = amt" and
    snap: "sender_balance_before t = Some (balance s)"
      "sender_balance_after t = Some (balance s - amt)"
      "receiver_balance_before t = Some (balance r)"
      "receiver_balance_after t = Some (balance r + amt)" and
    accts: "bank_accounts (store c')
         = bank_accounts (put_account (r\<lparr>balance := balance r + amt\<rparr>)
                           (put_account (s\<lparr>balance := balance s - amt\<rparr>) d))" and
    nr: "needs_rollback c' \<longrightarrow> (\<exists>m. faults e CreateAudit = Some (DatabaseError m))"
    by auto
  let ?s = "s\<lparr>balance := balance s - amt\<rparr>" and ?r = "r\<lparr>balance := balance r + amt\<rparr>"
  from nr noerr d' have d'': "d' = store c'" by (auto simp: atomic_exit_def)
  from get_account_pk [OF gs] get_account_pk [OF gr]
  have pks: "pk ?s = pk s0" "pk ?r = pk r0" by simp_all
  have ga: "get_account d' k = get_account (put_account ?r (put_account ?s d)) k" for k
    by (simp add: get_account_def d'' accts)
  have g1: "get_account d' (pk s0) = Some ?s" and g2: "get_account d' (pk r0) = Some ?r"
    using ne by (simp_all add: ga get_account_put_account pks)
  from gs pks have gs': "get_account d (pk ?s) = Some s" by simp
  note step1 = total_put_account [OF dist gs']
  from gr pks ne have gr': "get_account (put_account ?s d) (pk ?r) = Some r"
    by (simp add: get_account_put_account)
  note step2 = total_put_account [OF step1(2) gr']
  have total: "sum_list (map balance (bank_accounts d')) = sum_list (map balance (bank_accounts d))"
    by (simp add: d'' accts step1(1) step2(1))
  from t snap gs gr g1 g2 total show ?thesis by simp
qed

section \<open>Faults during the execution phase\<close>

text \<open>
  Claim C1. If a storage fault occurs after the Transaction record was created in status
  \<open>pending\<close>, the record ends in status \<open>failed\<close> with the error text as its failure
  reason, the persisted balances of sender and receiver are what they were before the
  transfer, and the caller receives a failure result.

  The code does not achieve this. The exception is caught inside the function that
  \<open>atomic\<close> decorates, so the block is left without an exception. When saving the
  receiver raises after the sender was saved (first part: a transfer of 100.00 from S to
  R), the block commits: the transaction is recorded as failed, and the sender's row
  keeps the debit while the receiver's row has no credit. When the same save fails with a
  database error (second part), the block is rolled back as a whole: the balances are
  kept, but no Transaction record remains, and the message is that of the handler's own
  failed save.
\<close>

theorem storage_fault_leaves_partial_transfer:
  "transfer_money (env0\<lparr>faults := fault_at SaveReceiver (Raised ''Test error'')\<rparr>)
      acct_S acct_R 10000 [] None db0
   = ((False, ''Transfer failed: Test error'', None),
      \<lparr>bank_accounts = [acct_S\<lparr>balance := 90000\<rparr>, acct_R],
       transactions =
         [\<lparr>txn_pk = 0, transaction_id = ''TXN202601010A1B2C3D'', sender = 1, receiver = 2,
           amount = 10000, description = [], status = Failed, created_at = 0,
           completed_at = Some 0, failure_reason = Some ''Test error'',
           sender_balance_before = Some 100000, sender_balance_after = Some 90000,
           receiver_balance_before = Some 50000, receiver_balance_after = Some 60000\<rparr>],
       audit_logs = []\<rparr>)
   \<and> transfer_money (env0\<lparr>faults := fault_at SaveReceiver (DatabaseError ''disk full'')\<rparr>)
      acct_S acct_R 10000 [] None db0
   = ((False, ''Transfer failed: An error occurred in the current transaction.'', None), db0)"
  by (simp add: model_defs sample_defs)

section \<open>Successful transfers and the audit record\<close>

lemma log_action_swallows:
  "fst (log_action e u a dd rt ra rq c)
     = (case fst (log_action_try e u a dd rt ra rq c) of
          Inl x \<Rightarrow> None | Inr entry \<Rightarrow> Some entry)"
  by (simp add: log_action_def split: prod.splits sum.splits)

text \<open>
  Claim C2. For every call of \<open>transfer_money\<close> that returns success, the snapshots
  satisfy sender-after = sender-before - amount and receiver-after = receiver-before +
  amount, the persisted balances of sender and receiver equal the after-snapshots, and the
  sum of all balances is unchanged.

  The code breaks the second part. The audit record is written inside the atomic block;
  when that write fails with a database error, \<open>log_action\<close> swallows the exception,
  \<open>transfer_money\<close> returns success with after-snapshots 800.00 and 700.00, and the block,
  marked for rollback, is rolled back: the persisted balances are still 1000.00 and
  500.00. In every successful call in which the audit write meets no database error the
  claim holds (\<open>committed_transfer_conserves\<close>).
\<close>

theorem success_reported_but_rolled_back:
  "(case transfer_money (env0\<lparr>faults := fault_at CreateAudit (DatabaseError ''disk full'')\<rparr>)
      acct_S acct_R 20000 ''rent'' None db0 of
     ((ok, msg, t), d) \<Rightarrow>
        (ok, map_option sender_balance_after t, map_option receiver_balance_after t,
         map_option balance (get_account d 1), map_option balance (get_account d 2)))
   = (True, Some (Some 80000), Some (Some 70000), Some 100000, Some 50000)"
  by (simp add: model_defs sample_defs)

text \<open>
  Claim C7. \<open>AuditService.log_action\<close> never raises: it returns the created entry or
  \<open>None\<close>; and a failure to write the audit record after a completed transfer leaves the
  completed transfer, its Transaction record and both balances intact.

  The first half holds (\<open>log_action_swallows\<close>). The second half fails when the write
  fails with a database error: \<open>log_action\<close> returns \<open>None\<close>, the caller is handed a
  completed transaction, and the store after the call is the store before it, without the
  Transaction record and with both balances as they were.
\<close>

theorem audit_failure_undoes_transfer:
  "fst (log_action (env0\<lparr>faults := fault_at CreateAudit (DatabaseError ''disk full'')\<rparr>) 1
          ''transaction_completed'' ''Transfer'' (Some 0) None None (conn0 db0)) = None
   \<and> (case transfer_money (env0\<lparr>faults := fault_at CreateAudit (DatabaseError ''disk full'')\<rparr>)
      acct_S acct_R 20000 ''rent'' None db0 of
     ((ok, msg, t), d) \<Rightarrow> (ok, map_option status t, d))
   = (True, Some Completed, db0)"
  by (simp add: model_defs sample_defs)

section \<open>Validation\<close>

lemma validation_failure_no_mutation:
  assumes "pk s0 = pk r0 \<or> amt \<le> 0 \<or> \<not> fst (can_transfer e d s0 amt)
      \<or> get_account d (pk s0) = None \<or> get_account d (pk r0) = None
      \<or> (\<exists>s. get_account d (pk s0) = Some s \<and> balance s < amt)"
  shows "\<exists>msg. transfer_money e s0 r0 amt descr rq d = ((False, msg, None), d)"
  using assms
  by (auto simp: transfer_money_def transfer_try_def select_for_update_get_def atomic_exit_def
      split: prod.splits sum.splits option.splits bool.splits)

text \<open>
  Claim C3. After locking both accounts, \<open>transfer_money\<close> re-validates the balance
  check and the daily-limit check against the freshly read, locked rows, and decides on
  these checks alone.

  The code re-validates the balance only. The daily limit is checked once, before the
  locks, by \<open>can_transfer\<close> on the account object the caller passed in. With a sender
  object that still carries the limit 100000.00 while the stored row has the limit 100.00,
  a transfer of 200.00 completes, although \<open>can_transfer\<close> on the locked row rejects it.
\<close>

theorem daily_limit_not_rechecked_after_lock:
  "(case transfer_money env0 acct_S acct_R 20000 [] None
          (db0\<lparr>bank_accounts := [acct_S\<lparr>daily_transfer_limit := 10000\<rparr>, acct_R]\<rparr>) of
     ((ok, msg, t), d) \<Rightarrow> (ok, map balance (bank_accounts d), map status (transactions d)))
   = (True, [80000, 70000], [Completed])
   \<and> fst (can_transfer env0 (db0\<lparr>bank_accounts := [acct_S\<lparr>daily_transfer_limit := 10000\<rparr>, acct_R]\<rparr>)
            (acct_S\<lparr>daily_transfer_limit := 10000\<rparr>) 20000) = False"
  by (simp add: model_defs sample_defs)

text \<open>
  Claim C4. A transfer whose receiver is missing or not active fails before any mutation,
  as does every other validation failure (same account, non-positive amount, inactive
  sender, insufficient balance, daily limit exceeded).

  For a missing receiver and for the other validation failures this holds
  (\<open>validation_failure_no_mutation\<close>). The receiver's \<open>is_active\<close> flag is never read: a
  transfer of 200.00 to a deactivated receiver completes and credits it.
\<close>

theorem inactive_receiver_is_credited:
  "(case transfer_money env0 acct_S (acct_R\<lparr>is_active := False\<rparr>) 20000 [] None
          (db0\<lparr>bank_accounts := [acct_S, acct_R\<lparr>is_active := False\<rparr>]\<rparr>) of
     ((ok, msg, t), d) \<Rightarrow>
       (ok, map balance (bank_accounts d), map is_active (bank_accounts d),
        map status (transactions d)))
   = (True, [80000, 70000], [True, False], [Completed])"
  by (simp add: model_defs sample_defs)

section \<open>Account statement\<close>

text \<open>
  Claim C8. \<open>get_account_statement\<close> is a pure read that returns the completed
  transactions of the account in the date range with their totals, the net change and the
  opening and closing balance.

  The code returns nothing: its first expression reads \<open>db_transaction.Q\<close>, which the
  module \<open>django.db.transaction\<close> does not define, so every call raises
  \<open>AttributeError\<close> before any query is made.
\<close>

theorem get_account_statement_raises:
  "get_account_statement d account date_from date_to
     = Inl (AttributeError ''module django.db.transaction has no attribute Q'')"
  by (simp add: get_account_statement_def db_transaction_getattr_def db_transaction_names_def)

end
